theory Spec2Isabelle
  imports Main "HOL-Library.AList" "HOL-Library.Sublist"
begin

section \<open>JavaScript values\<close>

text \<open>
  The server of \<^verbatim>\<open>src/server.js\<close> keeps whatever JSON the client sends, so the model
  works on JavaScript values rather than on a fixed record schema. A value is what
  \<^verbatim>\<open>JSON.parse\<close> can deliver, plus \<^verbatim>\<open>undefined\<close> (the result of reading a property
  that is not there) and \<^verbatim>\<open>NaN\<close>. Numbers are the integers: fractions and magnitudes
  beyond the exactly representable range of a double are outside the model. Strings are
  lists of 8-bit code units. An object is an association list in insertion order whose
  keys are distinct, as a parsed object's are.
\<close>

datatype jsval =
    JUndefined
  | JNull
  | JBool bool
  | JNum int
  | JNaN
  | JStr string
  | JArr "jsval list"
  | JObj "(string \<times> jsval) list"

text \<open>\<^verbatim>\<open>ToBoolean\<close>: the test of \<^verbatim>\<open>if (v)\<close>, \<^verbatim>\<open>a && b\<close>, \<^verbatim>\<open>a || b\<close> and \<^verbatim>\<open>filter(Boolean)\<close>.\<close>

fun truthy :: "jsval \<Rightarrow> bool" where
  "truthy JUndefined = False"
| "truthy JNull = False"
| "truthy (JBool b) = b"
| "truthy (JNum n) = (n \<noteq> 0)"
| "truthy JNaN = False"
| "truthy (JStr s) = (s \<noteq> [])"
| "truthy (JArr xs) = True"
| "truthy (JObj kvs) = True"

text \<open>\<^verbatim>\<open>a || b\<close>\<close>

definition js_or :: "jsval \<Rightarrow> jsval \<Rightarrow> jsval" where
  "js_or a b = (if truthy a then a else b)"

text \<open>\<^verbatim>\<open>Array.isArray(v)\<close> and the elements of an array.\<close>

fun isArray :: "jsval \<Rightarrow> bool" where
  "isArray (JArr xs) = True"
| "isArray _ = False"

fun elems :: "jsval \<Rightarrow> jsval list" where
  "elems (JArr xs) = xs"
| "elems _ = []"

text \<open>
  Reading a property \<^verbatim>\<open>v.k\<close>. The handlers read only the names \<^verbatim>\<open>action\<close>, \<^verbatim>\<open>data\<close>,
  \<^verbatim>\<open>source\<close>, \<^verbatim>\<open>version\<close>, \<^verbatim>\<open>site\<close>, \<^verbatim>\<open>floor\<close>, \<^verbatim>\<open>room\<close>, \<^verbatim>\<open>shelf\<close>,
  \<^verbatim>\<open>productBarcode\<close>, \<^verbatim>\<open>quantity\<close>, \<^verbatim>\<open>timestamp\<close> and \<^verbatim>\<open>receivedAt\<close>, none of which
  is a built-in property of an array, a string, a number or a boolean, so on those the
  read gives \<^verbatim>\<open>undefined\<close>.
\<close>

fun get_prop :: "jsval \<Rightarrow> string \<Rightarrow> jsval" where
  "get_prop (JObj kvs) k = (case map_of kvs k of Some v \<Rightarrow> v | None \<Rightarrow> JUndefined)"
| "get_prop _ k = JUndefined"

subsection \<open>Decimal numerals\<close>

definition digit_char :: "nat \<Rightarrow> char" where
  "digit_char d = ''0123456789'' ! d"

function show_nat :: "nat \<Rightarrow> string" where
  "show_nat n = (if n < 10 then [digit_char n] else show_nat (n div 10) @ [digit_char (n mod 10)])"
  by pat_completeness auto
termination
  by (relation "measure id") auto

declare show_nat.simps [simp del]

definition show_int :: "int \<Rightarrow> string" where
  "show_int i = (if i < 0 then CHR ''-'' # show_nat (nat (- i)) else show_nat (nat i))"

subsection \<open>Conversion to string\<close>

text \<open>\<^verbatim>\<open>Array.prototype.join\<close> on a list of strings already converted.\<close>

fun join :: "string \<Rightarrow> string list \<Rightarrow> string" where
  "join sep [] = []"
| "join sep [x] = x"
| "join sep (x # y # ys) = x @ sep @ join sep (y # ys)"

text \<open>
  \<^verbatim>\<open>ToString\<close>, as a template literal \<^verbatim>\<open>`${v}`\<close> and \<^verbatim>\<open>join\<close> apply it. An array is
  its elements joined by commas, with \<^verbatim>\<open>null\<close> and \<^verbatim>\<open>undefined\<close> elements empty; a
  plain object is \<^verbatim>\<open>[object Object]\<close>.
\<close>

fun to_str :: "jsval \<Rightarrow> string" where
  "to_str JUndefined = ''undefined''"
| "to_str JNull = ''null''"
| "to_str (JBool b) = (if b then ''true'' else ''false'')"
| "to_str (JNum n) = show_int n"
| "to_str JNaN = ''NaN''"
| "to_str (JStr s) = s"
| "to_str (JArr xs) = join '','' (map (\<lambda>x. if x = JUndefined \<or> x = JNull then [] else to_str x) xs)"
| "to_str (JObj kvs) = ''[object Object]''"

subsection \<open>Object spread\<close>

text \<open>
  \<^verbatim>\<open>{...v}\<close> copies the own enumerable properties of \<^verbatim>\<open>v\<close>: the entries of an object,
  the index-keyed elements of an array, the index-keyed characters of a string, and
  nothing for any other value.
\<close>

fun spread :: "jsval \<Rightarrow> (string \<times> jsval) list" where
  "spread (JObj kvs) = kvs"
| "spread (JArr xs) = zip (map show_nat [0..<length xs]) xs"
| "spread (JStr s) = zip (map show_nat [0..<length s]) (map (\<lambda>c. JStr [c]) s)"
| "spread _ = []"

text \<open>
  The object literal of lines 72-76 and 88-92:
  \<^verbatim>\<open>{ ...record, receivedAt: new Date().toISOString(), source: source || 'Unknown' }\<close>.
  The spread comes first, so the two named properties are written over whatever the
  payload carried under those names. \<open>t\<close> is the clock reading.
\<close>

definition with_stamps :: "string \<Rightarrow> jsval \<Rightarrow> jsval \<Rightarrow> jsval" where
  "with_stamps t source record =
     JObj (AList.update ''source'' (js_or source (JStr ''Unknown''))
            (AList.update ''receivedAt'' (JStr t) (spread record)))"

section \<open>Server state, requests and responses\<close>

record log_entry =
  log_timestamp :: string
  log_method :: string
  log_path :: string
  log_ip :: string
  log_userAgent :: "string option"

text \<open>The two module-level variables \<^verbatim>\<open>inventoryData\<close> and \<^verbatim>\<open>connectionLog\<close>.\<close>

record server_state =
  inventoryData :: "jsval list"
  connectionLog :: "log_entry list"

text \<open>
  A request as the handlers see it, after \<^verbatim>\<open>cors\<close>, \<^verbatim>\<open>bodyParser.json\<close> and
  \<^verbatim>\<open>express.static\<close> have passed it on. Query parameters are strings (a repeated or
  bracketed parameter, which the query parser turns into an array or object, is outside
  the model). \<open>body\<close> is \<^verbatim>\<open>req.body\<close>.
\<close>

record request =
  req_method :: string
  req_path :: string
  req_ip :: string
  user_agent :: "string option"
  authorization :: "string option"
  x_api_key :: "string option"
  query :: "string \<Rightarrow> string option"
  body :: jsval

datatype payload = Json jsval | Text string

record response =
  status :: nat
  payload :: payload

section \<open>Ingestion: POST /api/inventory\<close>

datatype js_error = TypeError

text \<open>
  \<^verbatim>\<open>const { action, data, source, version } = req.body\<close> raises a TypeError when
  \<^verbatim>\<open>req.body\<close> is \<^verbatim>\<open>undefined\<close> or \<^verbatim>\<open>null\<close>; it is the only statement of the
  \<^verbatim>\<open>try\<close> block that can raise.
\<close>

definition destructure_body :: "jsval \<Rightarrow> js_error + (jsval \<times> jsval \<times> jsval \<times> jsval)" where
  "destructure_body b =
     (if b = JUndefined \<or> b = JNull then Inl TypeError
      else Inr (get_prop b ''action'', get_prop b ''data'', get_prop b ''source'', get_prop b ''version''))"

text \<open>
  The handler of lines 66-117. \<open>now i\<close> is the result of the \<open>i\<close>-th call of
  \<^verbatim>\<open>new Date().toISOString()\<close> made by the handler: one call for \<^verbatim>\<open>add_inventory\<close>,
  one call per element, in order, for \<^verbatim>\<open>sync_inventory\<close>. Console output is not
  modelled.
\<close>

definition post_inventory :: "(nat \<Rightarrow> string) \<Rightarrow> request \<Rightarrow> server_state \<Rightarrow> response \<times> server_state" where
  "post_inventory now req s =
     (case destructure_body (body req) of
        Inl e \<Rightarrow>
          (\<lparr>status = 500,
            payload = Json (JObj [(''success'', JBool False), (''error'', JStr ''Internal server error'')])\<rparr>, s)
      | Inr (action, data, source, version) \<Rightarrow>
          if action = JStr ''add_inventory'' \<and> truthy data then
            let s' = s\<lparr>inventoryData := inventoryData s @ [with_stamps (now 0) source data]\<rparr>
            in (\<lparr>status = 201,
                 payload = Json (JObj [(''success'', JBool True),
                                       (''message'', JStr ''Inventory record added''),
                                       (''recordId'', JNum (int (length (inventoryData s')) - 1)),
                                       (''totalRecords'', JNum (int (length (inventoryData s'))))])\<rparr>, s')
          else if action = JStr ''sync_inventory'' \<and> isArray data then
            let newRecords = map (\<lambda>(i, record). with_stamps (now i) source record)
                                 (enumerate 0 (elems data));
                s' = s\<lparr>inventoryData := inventoryData s @ newRecords\<rparr>
            in (\<lparr>status = 200,
                 payload = Json (JObj [(''success'', JBool True),
                                       (''message'', JStr ''Bulk sync completed''),
                                       (''recordsAdded'', JNum (int (length newRecords))),
                                       (''totalRecords'', JNum (int (length (inventoryData s'))))])\<rparr>, s')
          else
            (\<lparr>status = 400,
              payload = Json (JObj [(''success'', JBool False), (''error'', JStr ''Invalid request format'')])\<rparr>, s))"

section \<open>Query: GET /api/inventory\<close>

text \<open>
  One filter step, \<^verbatim>\<open>if (site) filtered = filtered.filter(r => r.site === site)\<close>. The
  parameter is a string, so it is truthy when present and non-empty, and \<^verbatim>\<open>===\<close>
  holds exactly when the record's field is a string with the same characters.
\<close>

fun filter_by :: "string \<Rightarrow> string option \<Rightarrow> jsval list \<Rightarrow> jsval list" where
  "filter_by field None xs = xs"
| "filter_by field (Some v) xs =
     (if v \<noteq> [] then filter (\<lambda>r. get_prop r field = JStr v) xs else xs)"

subsection \<open>parseInt\<close>

text \<open>
  \<^verbatim>\<open>parseInt(str)\<close> with no radix: leading white space is skipped, a sign is read, a
  prefix \<^verbatim>\<open>0x\<close> or \<^verbatim>\<open>0X\<close> selects radix 16, and the longest run of digits of the radix
  is the value; with no digit the result is \<^verbatim>\<open>NaN\<close>, here \<open>None\<close>.
\<close>

definition is_space :: "char \<Rightarrow> bool" where
  "is_space c = (c \<in> set [CHR 0x09, CHR 0x0A, CHR 0x0B, CHR 0x0C, CHR 0x0D, CHR 0x20, CHR 0xA0])"

definition digit_val :: "char \<Rightarrow> nat option" where
  "digit_val c =
     (let n = (of_char c :: nat)
      in if 48 \<le> n \<and> n \<le> 57 then Some (n - 48)
         else if 97 \<le> n \<and> n \<le> 122 then Some (n - 87)
         else if 65 \<le> n \<and> n \<le> 90 then Some (n - 55)
         else None)"

definition is_digit_in :: "nat \<Rightarrow> char \<Rightarrow> bool" where
  "is_digit_in R c = (case digit_val c of Some d \<Rightarrow> d < R | None \<Rightarrow> False)"

definition digits_value :: "nat \<Rightarrow> string \<Rightarrow> nat" where
  "digits_value R ds = foldl (\<lambda>acc c. acc * R + (case digit_val c of Some d \<Rightarrow> d | None \<Rightarrow> 0)) 0 ds"

definition parseInt :: "string \<Rightarrow> int option" where
  "parseInt str =
     (let s = dropWhile is_space str;
          (sign, s1) = (case s of
                          [] \<Rightarrow> (1, s)
                        | c # r \<Rightarrow> if c = CHR ''-'' then (- 1, r)
                                   else if c = CHR ''+'' then (1, r) else (1, s));
          (R, s2) = (if prefix ''0x'' s1 \<or> prefix ''0X'' s1 then (16, drop 2 s1) else (10, s1));
          z = takeWhile (is_digit_in R) s2
      in if z = [] then None else Some (sign * int (digits_value R z)))"

text \<open>
  \<^verbatim>\<open>xs.slice(start)\<close>, with \<open>None\<close> for a \<^verbatim>\<open>NaN\<close> argument, which counts as 0. A
  negative start counts from the end and stops at the first element. A double that
  rounds a very long digit string is still far beyond any array length, so the integer
  gives the same slice.
\<close>

definition slice_from :: "int option \<Rightarrow> 'a list \<Rightarrow> 'a list" where
  "slice_from start xs =
     (let len = int (length xs);
          rel = (case start of None \<Rightarrow> 0 | Some i \<Rightarrow> i);
          k = (if rel < 0 then max (len + rel) 0 else min rel len)
      in drop (nat k) xs)"

text \<open>\<^verbatim>\<open>if (limit) { filtered = filtered.slice(-parseInt(limit)) }\<close>\<close>

fun apply_limit :: "string option \<Rightarrow> jsval list \<Rightarrow> jsval list" where
  "apply_limit None xs = xs"
| "apply_limit (Some l) xs =
     (if l \<noteq> [] then slice_from (map_option uminus (parseInt l)) xs else xs)"

text \<open>The records selected by the five filters, in the order the handler applies them.\<close>

definition filtered_records :: "request \<Rightarrow> server_state \<Rightarrow> jsval list" where
  "filtered_records req s =
     filter_by ''productBarcode'' (query req ''product'')
       (filter_by ''shelf'' (query req ''shelf'')
         (filter_by ''room'' (query req ''room'')
           (filter_by ''floor'' (query req ''floor'')
             (filter_by ''site'' (query req ''site'') (inventoryData s)))))"

text \<open>The handler of lines 120-143.\<close>

definition get_inventory :: "request \<Rightarrow> server_state \<Rightarrow> response" where
  "get_inventory req s =
     (let filtered = apply_limit (query req ''limit'') (filtered_records req s)
      in \<lparr>status = 200,
          payload = Json (JObj [(''success'', JBool True),
                                (''totalRecords'', JNum (int (length (inventoryData s)))),
                                (''filteredRecords'', JNum (int (length filtered))),
                                (''data'', JArr filtered)])\<rparr>)"

section \<open>Statistics: GET /api/stats\<close>

text \<open>
  The operator \<^verbatim>\<open>+\<close>: both operands are made primitive (an array or object becomes its
  string); if either is then a string the result is the concatenation of the two
  strings, otherwise the sum of the two numbers.
\<close>

fun to_primitive :: "jsval \<Rightarrow> jsval" where
  "to_primitive (JArr xs) = JStr (to_str (JArr xs))"
| "to_primitive (JObj kvs) = JStr (to_str (JObj kvs))"
| "to_primitive v = v"

fun is_string :: "jsval \<Rightarrow> bool" where
  "is_string (JStr s) = True"
| "is_string _ = False"

text \<open>\<^verbatim>\<open>ToNumber\<close> on the primitives that are not strings; \<open>None\<close> is \<^verbatim>\<open>NaN\<close>.\<close>

fun to_number :: "jsval \<Rightarrow> int option" where
  "to_number JNull = Some 0"
| "to_number (JBool b) = Some (if b then 1 else 0)"
| "to_number (JNum n) = Some n"
| "to_number _ = None"

definition js_add :: "jsval \<Rightarrow> jsval \<Rightarrow> jsval" where
  "js_add a b =
     (let pa = to_primitive a; pb = to_primitive b
      in if is_string pa \<or> is_string pb then JStr (to_str pa @ to_str pb)
         else (case (to_number pa, to_number pb) of
                 (Some x, Some y) \<Rightarrow> JNum (x + y)
               | _ \<Rightarrow> JNaN))"

text \<open>
  \<^verbatim>\<open>new Set(xs)\<close> keeps the first occurrence of each value in insertion order.
  Primitives are compared by value. An array or object is compared by identity; the
  values collected here are properties of different records, each created by parsing
  its own part of a request body, so two of them are never the same object.
\<close>

fun same_value_zero :: "jsval \<Rightarrow> jsval \<Rightarrow> bool" where
  "same_value_zero (JArr xs) b = False"
| "same_value_zero (JObj kvs) b = False"
| "same_value_zero a b = (a = b)"

definition set_add :: "jsval list \<Rightarrow> jsval \<Rightarrow> jsval list" where
  "set_add S v = (if list_ex (\<lambda>x. same_value_zero x v) S then S else S @ [v])"

definition new_Set :: "jsval list \<Rightarrow> jsval list" where
  "new_Set xs = foldl set_add [] xs"

text \<open>\<^verbatim>\<open>[...new Set(inventoryData.map(r => r.f).filter(Boolean))]\<close>\<close>

definition distinct_truthy :: "string \<Rightarrow> jsval list \<Rightarrow> jsval list" where
  "distinct_truthy f store = new_Set (filter truthy (map (\<lambda>r. get_prop r f) store))"

text \<open>The handler of lines 146-160.\<close>

definition get_stats :: "server_state \<Rightarrow> response" where
  "get_stats s =
     (let store = inventoryData s
      in \<lparr>status = 200,
          payload = Json (JObj
            [(''totalRecords'', JNum (int (length store))),
             (''totalProducts'',
                foldl (\<lambda>sum r. js_add sum (js_or (get_prop r ''quantity'') (JNum 0))) (JNum 0) store),
             (''uniqueProducts'',
                JNum (int (length (new_Set (map (\<lambda>r. get_prop r ''productBarcode'') store))))),
             (''sites'', JArr (distinct_truthy ''site'' store)),
             (''floors'', JArr (distinct_truthy ''floor'' store)),
             (''rooms'', JArr (distinct_truthy ''room'' store)),
             (''shelves'', JArr (distinct_truthy ''shelf'' store)),
             (''lastUpdate'',
                if length store > 0 then get_prop (store ! (length store - 1)) ''receivedAt'' else JNull)])\<rparr>)"

section \<open>Clearing the store: DELETE /api/inventory\<close>

definition delete_inventory :: "request \<Rightarrow> server_state \<Rightarrow> response \<times> server_state" where
  "delete_inventory req s =
     (let count = length (inventoryData s);
          s' = s\<lparr>inventoryData := []\<rparr>
      in (\<lparr>status = 200,
           payload = Json (JObj [(''success'', JBool True),
                                 (''message'', JStr (show_nat count @ '' records deleted'')),
                                 (''totalRecords'', JNum 0)])\<rparr>, s'))"

section \<open>CSV export: GET /api/export/csv\<close>

definition csv_headers :: "string list" where
  "csv_headers = [''Timestamp'', ''Site'', ''Floor'', ''Room'', ''Shelf'', ''Product_Barcode'',
                  ''Quantity'', ''Received_At'']"

text \<open>A quoted cell \<^verbatim>\<open>`"${record.f || dflt}"`\<close>; \<open>CHR 0x22\<close> is the double quote.\<close>

definition quoted :: "jsval \<Rightarrow> string \<Rightarrow> string \<Rightarrow> string" where
  "quoted record f dflt = [CHR 0x22] @ to_str (js_or (get_prop record f) (JStr dflt)) @ [CHR 0x22]"

text \<open>
  The array \<^verbatim>\<open>row\<close> of lines 191-200 after \<^verbatim>\<open>join\<close> has converted each element to a
  string; the quantity cell is \<^verbatim>\<open>record.quantity || 0\<close>, not quoted.
\<close>

definition csv_row :: "jsval \<Rightarrow> string list" where
  "csv_row record =
     [quoted record ''timestamp'' [],
      quoted record ''site'' ''NULL'',
      quoted record ''floor'' ''NULL'',
      quoted record ''room'' ''NULL'',
      quoted record ''shelf'' ''NULL'',
      quoted record ''productBarcode'' [],
      to_str (js_or (get_prop record ''quantity'') (JNum 0)),
      quoted record ''receivedAt'' []]"

text \<open>
  The handler of lines 186-209: \<^verbatim>\<open>forEach\<close> pushes one joined row per record on
  \<^verbatim>\<open>csvRows\<close>, which starts with the header row; the rows are joined by line feeds.
  The response headers, one of which carries the current time, are not modelled.
\<close>

definition csv_rows :: "jsval list \<Rightarrow> string list" where
  "csv_rows store = foldl (\<lambda>csvRows record. csvRows @ [join '','' (csv_row record)])
                        [join '','' csv_headers] store"

definition export_csv :: "server_state \<Rightarrow> response" where
  "export_csv s = \<lparr>status = 200, payload = Text (join [CHR 0x0A] (csv_rows (inventoryData s)))\<rparr>"

section \<open>Middleware and routing\<close>

text \<open>The request logger of lines 38-49; \<open>t\<close> is its clock reading.\<close>

definition logger :: "string \<Rightarrow> request \<Rightarrow> server_state \<Rightarrow> server_state" where
  "logger t req s =
     s\<lparr>connectionLog := connectionLog s @
          [\<lparr>log_timestamp = t, log_method = req_method req, log_path = req_path req,
            log_ip = req_ip req, log_userAgent = user_agent req\<rparr>]\<rparr>"

text \<open>\<^verbatim>\<open>str.replace(pat, rep)\<close> with a string pattern: the first occurrence only.\<close>

fun replace_first :: "string \<Rightarrow> string \<Rightarrow> string \<Rightarrow> string" where
  "replace_first pat rep [] = (if pat = [] then rep else [])"
| "replace_first pat rep (c # cs) =
     (if prefix pat (c # cs) then rep @ drop (length pat) (c # cs)
      else c # replace_first pat rep cs)"

datatype gate_result = Next | Respond response

text \<open>
  \<^verbatim>\<open>validateApiKey\<close>, lines 25-35. The key is extracted; the comparison with the
  configured key is commented out in the source, so the only statement left is
  \<^verbatim>\<open>next()\<close>.
\<close>

definition extract_api_key :: "request \<Rightarrow> string option" where
  "extract_api_key req =
     (case map_option (replace_first ''Bearer '' []) (authorization req) of
        Some k \<Rightarrow> if k \<noteq> [] then Some k else x_api_key req
      | None \<Rightarrow> x_api_key req)"

definition validateApiKey :: "request \<Rightarrow> gate_result" where
  "validateApiKey req = (let apiKey = extract_api_key req in Next)"

text \<open>
  One request through the logger, the gate where the route has it, and the handler.
  \<open>clk i\<close> is the \<open>i\<close>-th clock reading of the request: the logger takes the first, the
  handler the following ones. A route is matched on the method and the path as written
  (the router's leniency about letter case, a trailing slash and HEAD requests is left
  out). The routes \<^verbatim>\<open>/api/status\<close>, \<^verbatim>\<open>/api/logs\<close>, \<^verbatim>\<open>/api/export/json\<close> and
  \<^verbatim>\<open>/\<close> are not modelled: \<open>None\<close>.
\<close>

definition gated :: "request \<Rightarrow> server_state \<Rightarrow> response \<times> server_state \<Rightarrow> response \<times> server_state" where
  "gated req s k = (case validateApiKey req of Next \<Rightarrow> k | Respond r \<Rightarrow> (r, s))"

definition serve :: "(nat \<Rightarrow> string) \<Rightarrow> request \<Rightarrow> server_state \<Rightarrow> (response \<times> server_state) option" where
  "serve clk req s =
     (let s1 = logger (clk 0) req s;
          now = (\<lambda>i. clk (Suc i))
      in if req_method req = ''POST'' \<and> req_path req = ''/api/inventory'' then
           Some (gated req s1 (post_inventory now req s1))
         else if req_method req = ''GET'' \<and> req_path req = ''/api/inventory'' then
           Some (gated req s1 (get_inventory req s1, s1))
         else if req_method req = ''GET'' \<and> req_path req = ''/api/stats'' then
           Some (get_stats s1, s1)
         else if req_method req = ''DELETE'' \<and> req_path req = ''/api/inventory'' then
           Some (gated req s1 (delete_inventory req s1))
         else if req_method req = ''GET'' \<and> req_path req = ''/api/export/csv'' then
           Some (export_csv s1, s1)
         else None)"

section \<open>Example inputs\<close>

definition blank_request :: request where
  "blank_request =
     \<lparr>req_method = ''GET'', req_path = ''/api/inventory'', req_ip = ''127.0.0.1'',
      user_agent = None, authorization = None, x_api_key = None,
      query = Map.empty, body = JObj []\<rparr>"

definition empty_state :: server_state where
  "empty_state = \<lparr>inventoryData = [], connectionLog = []\<rparr>"

definition fixed_clock :: "nat \<Rightarrow> string" where
  "fixed_clock i = ''2026-01-01T00:00:00.000Z''"

text \<open>A clock whose reading advances by a millisecond after the first call.\<close>

definition ticking_clock :: "nat \<Rightarrow> string" where
  "ticking_clock i = (if i = 0 then ''2026-01-01T00:00:00.000Z'' else ''2026-01-01T00:00:00.001Z'')"

definition scan_A :: jsval where
  "scan_A = JObj [(''productBarcode'', JStr ''123''), (''site'', JStr ''A''), (''quantity'', JNum 5)]"

definition scan_B :: jsval where
  "scan_B = JObj [(''productBarcode'', JStr ''456''), (''site'', JStr ''B''), (''quantity'', JNum 2)]"

text \<open>A payload that carries its own \<^verbatim>\<open>receivedAt\<close> and \<^verbatim>\<open>source\<close>.\<close>

definition scan_stamped :: jsval where
  "scan_stamped = JObj [(''receivedAt'', JStr ''1999-12-31''), (''productBarcode'', JStr ''789''),
                        (''source'', JStr ''client'')]"

definition add_request :: "jsval \<Rightarrow> request" where
  "add_request data =
     blank_request\<lparr>req_method := ''POST'',
                   body := JObj [(''action'', JStr ''add_inventory''), (''data'', data)]\<rparr>"

definition sync_request :: "jsval \<Rightarrow> request" where
  "sync_request data =
     blank_request\<lparr>req_method := ''POST'',
                   body := JObj [(''action'', JStr ''sync_inventory''), (''data'', data),
                                 (''source'', JStr ''EasyInv'')]\<rparr>"

section \<open>The query as the specification words it\<close>

text \<open>
  A record passes a filter parameter when the parameter is absent or empty, or when the
  record's field is the string the parameter gives; the five filters are combined by
  conjunction.
\<close>

definition field_matches :: "string option \<Rightarrow> jsval \<Rightarrow> bool" where
  "field_matches q v = (case q of None \<Rightarrow> True | Some p \<Rightarrow> p = [] \<or> v = JStr p)"

definition spec_selected :: "request \<Rightarrow> jsval \<Rightarrow> bool" where
  "spec_selected req r =
     (field_matches (query req ''site'') (get_prop r ''site'')
      \<and> field_matches (query req ''floor'') (get_prop r ''floor'')
      \<and> field_matches (query req ''room'') (get_prop r ''room'')
      \<and> field_matches (query req ''shelf'') (get_prop r ''shelf'')
      \<and> field_matches (query req ''product'') (get_prop r ''productBarcode''))"

definition two_scans :: server_state where
  "two_scans = \<lparr>inventoryData = [scan_A, scan_B], connectionLog = []\<rparr>"

definition query_request :: "(string \<times> string) list \<Rightarrow> request" where
  "query_request params = blank_request\<lparr>query := map_of params\<rparr>"

section \<open>Reading a response, and the statistics as the specification words them\<close>

text \<open>The value under a key of a JSON response body.\<close>

definition json_field :: "response \<Rightarrow> string \<Rightarrow> jsval" where
  "json_field r k = (case payload r of Json v \<Rightarrow> get_prop v k | Text t \<Rightarrow> JUndefined)"







text \<open>The store after one bulk sync of three scans, two of them of the same product.\<close>

definition three_scans :: server_state where
  "three_scans = snd (post_inventory fixed_clock (sync_request (JArr [scan_A, scan_B, scan_A])) empty_state)"

section \<open>The CSV columns as the specification words them\<close>



definition delete_request :: request where
  "delete_request = blank_request\<lparr>req_method := ''DELETE''\<rparr>"


section \<open>Ingestion\<close>

lemma map_of_with_stamps:
  "\<exists>kvs. with_stamps t src r = JObj kvs \<and>
         map_of kvs = (map_of (spread r))(''receivedAt'' \<mapsto> JStr t,
                                          ''source'' \<mapsto> js_or src (JStr ''Unknown''))"
  by (simp add: with_stamps_def update_conv')

lemma action_string_body:
  "get_prop b ''action'' = JStr a \<Longrightarrow> b \<noteq> JUndefined \<and> b \<noteq> JNull"
  by (cases b) simp_all

lemma post_add:
  assumes "get_prop (body req) ''action'' = JStr ''add_inventory''"
    and "truthy (get_prop (body req) ''data'')"
  shows "post_inventory now req s =
     (\<lparr>status = 201,
       payload = Json (JObj [(''success'', JBool True),
                             (''message'', JStr ''Inventory record added''),
                             (''recordId'', JNum (int (length (inventoryData s)))),
                             (''totalRecords'', JNum (int (length (inventoryData s)) + 1))])\<rparr>,
      s\<lparr>inventoryData := inventoryData s @
           [with_stamps (now 0) (get_prop (body req) ''source'') (get_prop (body req) ''data'')]\<rparr>)"
  using assms action_string_body[OF assms(1)]
  by (simp add: post_inventory_def destructure_body_def Let_def)

lemma post_sync:
  assumes "get_prop (body req) ''action'' = JStr ''sync_inventory''"
    and "get_prop (body req) ''data'' = JArr xs"
  shows "post_inventory now req s =
     (\<lparr>status = 200,
       payload = Json (JObj [(''success'', JBool True),
                             (''message'', JStr ''Bulk sync completed''),
                             (''recordsAdded'', JNum (int (length xs))),
                             (''totalRecords'', JNum (int (length (inventoryData s)) + int (length xs)))])\<rparr>,
      s\<lparr>inventoryData := inventoryData s @
           map (\<lambda>(i, record). with_stamps (now i) (get_prop (body req) ''source'') record)
               (enumerate 0 xs)\<rparr>)"
  using assms action_string_body[OF assms(1)]
  by (simp add: post_inventory_def destructure_body_def Let_def)

lemma sync_record_nth:
  assumes "i < length xs"
  shows "(ys @ map (\<lambda>(i, record). with_stamps (now i) src record) (enumerate 0 xs)) ! (length ys + i)
         = with_stamps (now i) src (xs ! i)"
  using assms by (simp add: nth_enumerate_eq)

text \<open>
  C1. A POST /api/inventory request with action \<^verbatim>\<open>add_inventory\<close> and a truthy
  \<^verbatim>\<open>data\<close> (every mapping is truthy) appends exactly one record; the record has the
  properties of the supplied data with \<^verbatim>\<open>receivedAt\<close> set to the clock reading and
  \<^verbatim>\<open>source\<close> set to the request's source, or to \<^verbatim>\<open>Unknown\<close> when that is absent; the
  response is 201 with success true, \<^verbatim>\<open>recordId\<close> the position of the new record and
  \<^verbatim>\<open>totalRecords\<close> the new length of the store.
\<close>

theorem add_inventory_appends_one:
  assumes "get_prop (body req) ''action'' = JStr ''add_inventory''"
    and "truthy (get_prop (body req) ''data'')"
  shows "\<exists>kvs.
      inventoryData (snd (post_inventory now req s)) = inventoryData s @ [JObj kvs]
    \<and> length (inventoryData (snd (post_inventory now req s))) = length (inventoryData s) + 1
    \<and> map_of kvs = (map_of (spread (get_prop (body req) ''data'')))
                      (''receivedAt'' \<mapsto> JStr (now 0),
                       ''source'' \<mapsto> (if truthy (get_prop (body req) ''source'')
                                       then get_prop (body req) ''source'' else JStr ''Unknown''))
    \<and> (get_prop (body req) ''source'' = JUndefined \<longrightarrow> map_of kvs ''source'' = Some (JStr ''Unknown''))
    \<and> inventoryData (snd (post_inventory now req s)) ! length (inventoryData s) = JObj kvs
    \<and> connectionLog (snd (post_inventory now req s)) = connectionLog s
    \<and> fst (post_inventory now req s) =
        \<lparr>status = 201,
         payload = Json (JObj [(''success'', JBool True),
                               (''message'', JStr ''Inventory record added''),
                               (''recordId'', JNum (int (length (inventoryData s)))),
                               (''totalRecords'',
                                  JNum (int (length (inventoryData (snd (post_inventory now req s))))))])\<rparr>"
proof -
  obtain kvs where kvs: "with_stamps (now 0) (get_prop (body req) ''source'') (get_prop (body req) ''data'') = JObj kvs"
    and m: "map_of kvs = (map_of (spread (get_prop (body req) ''data'')))
                      (''receivedAt'' \<mapsto> JStr (now 0),
                       ''source'' \<mapsto> js_or (get_prop (body req) ''source'') (JStr ''Unknown''))"
    using map_of_with_stamps by blast
  have "map_of kvs ''source'' = Some (js_or (get_prop (body req) ''source'') (JStr ''Unknown''))"
    by (simp add: m)
  then have u: "get_prop (body req) ''source'' = JUndefined \<longrightarrow> map_of kvs ''source'' = Some (JStr ''Unknown'')"
    by (simp add: js_or_def)
  show ?thesis
    apply (rule exI[of _ kvs])
    using u m by (simp add: post_add[OF assms] kvs js_or_def)
qed

theorem add_inventory_appends_one_witness:
  "get_prop (body (add_request scan_A)) ''action'' = JStr ''add_inventory''
   \<and> truthy (get_prop (body (add_request scan_A)) ''data'')
   \<and> length (inventoryData (snd (post_inventory fixed_clock (add_request scan_A) empty_state))) = 1
   \<and> inventoryData (snd (post_inventory fixed_clock (add_request scan_A) empty_state)) ! 0 =
       JObj [(''productBarcode'', JStr ''123''), (''site'', JStr ''A''), (''quantity'', JNum 5),
             (''receivedAt'', JStr ''2026-01-01T00:00:00.000Z''), (''source'', JStr ''Unknown'')]
   \<and> fst (post_inventory fixed_clock (add_request scan_A) empty_state) =
        \<lparr>status = 201,
         payload = Json (JObj [(''success'', JBool True),
                               (''message'', JStr ''Inventory record added''),
                               (''recordId'', JNum 0), (''totalRecords'', JNum 1)])\<rparr>"
proof -
  have h1: "get_prop (body (add_request scan_A)) ''action'' = JStr ''add_inventory''"
    by (simp add: add_request_def blank_request_def)
  have h2: "truthy (get_prop (body (add_request scan_A)) ''data'')"
    by (simp add: add_request_def blank_request_def scan_A_def)
  from add_inventory_appends_one[OF h1 h2, of fixed_clock empty_state]
  obtain kvs where
    a: "inventoryData (snd (post_inventory fixed_clock (add_request scan_A) empty_state)) =
          inventoryData empty_state @ [JObj kvs]"
    and f: "fst (post_inventory fixed_clock (add_request scan_A) empty_state) =
        \<lparr>status = 201,
         payload = Json (JObj [(''success'', JBool True),
                               (''message'', JStr ''Inventory record added''),
                               (''recordId'', JNum (int (length (inventoryData empty_state)))),
                               (''totalRecords'',
                                  JNum (int (length (inventoryData (snd (post_inventory fixed_clock (add_request scan_A) empty_state))))))])\<rparr>"
    by blast
  have e: "inventoryData (snd (post_inventory fixed_clock (add_request scan_A) empty_state)) ! 0 =
       JObj [(''productBarcode'', JStr ''123''), (''site'', JStr ''A''), (''quantity'', JNum 5),
             (''receivedAt'', JStr ''2026-01-01T00:00:00.000Z''), (''source'', JStr ''Unknown'')]"
    by (simp add: post_inventory_def destructure_body_def add_request_def blank_request_def
        scan_A_def empty_state_def fixed_clock_def with_stamps_def js_or_def Let_def)
  show ?thesis using h1 h2 a f e by (simp add: empty_state_def)
qed

text \<open>
  C2, as the code has it. A POST /api/inventory request with action \<^verbatim>\<open>sync_inventory\<close>
  and \<^verbatim>\<open>data\<close> an array of N elements appends N records in the order of the array and
  leaves the earlier records in place; the \<open>i\<close>-th new record has the properties of the
  \<open>i\<close>-th element, the request's source (or \<^verbatim>\<open>Unknown\<close>), and as \<^verbatim>\<open>receivedAt\<close> the
  clock reading taken when that element is converted, which is the same for all elements
  when the clock does not advance in between; the response is 200 with success true,
  \<^verbatim>\<open>recordsAdded\<close> equal to N and \<^verbatim>\<open>totalRecords\<close> equal to the new store length.
\<close>

theorem sync_inventory_appends_all:
  assumes "get_prop (body req) ''action'' = JStr ''sync_inventory''"
    and "get_prop (body req) ''data'' = JArr xs"
  shows "length (inventoryData (snd (post_inventory now req s))) = length (inventoryData s) + length xs
    \<and> take (length (inventoryData s)) (inventoryData (snd (post_inventory now req s))) = inventoryData s
    \<and> (\<forall>i<length xs. \<exists>kvs.
          inventoryData (snd (post_inventory now req s)) ! (length (inventoryData s) + i) = JObj kvs
        \<and> map_of kvs = (map_of (spread (xs ! i)))
                          (''receivedAt'' \<mapsto> JStr (now i),
                           ''source'' \<mapsto> (if truthy (get_prop (body req) ''source'')
                                           then get_prop (body req) ''source'' else JStr ''Unknown'')))
    \<and> ((\<forall>i<length xs. now i = t) \<longrightarrow>
         (\<forall>i<length xs.
            get_prop (inventoryData (snd (post_inventory now req s)) ! (length (inventoryData s) + i))
              ''receivedAt'' = JStr t))
    \<and> connectionLog (snd (post_inventory now req s)) = connectionLog s
    \<and> fst (post_inventory now req s) =
        \<lparr>status = 200,
         payload = Json (JObj [(''success'', JBool True),
                               (''message'', JStr ''Bulk sync completed''),
                               (''recordsAdded'', JNum (int (length xs))),
                               (''totalRecords'',
                                  JNum (int (length (inventoryData (snd (post_inventory now req s))))))])\<rparr>"
proof -
  let ?src = "get_prop (body req) ''source''"
  let ?new = "map (\<lambda>(i, record). with_stamps (now i) ?src record) (enumerate 0 xs)"
  have st: "inventoryData (snd (post_inventory now req s)) = inventoryData s @ ?new"
    by (simp add: post_sync[OF assms])
  have nth: "(inventoryData s @ ?new) ! (length (inventoryData s) + i) = with_stamps (now i) ?src (xs ! i)"
    if "i < length xs" for i
    using that by (rule sync_record_nth)
  have each: "\<exists>kvs. (inventoryData s @ ?new) ! (length (inventoryData s) + i) = JObj kvs
        \<and> map_of kvs = (map_of (spread (xs ! i)))
                          (''receivedAt'' \<mapsto> JStr (now i),
                           ''source'' \<mapsto> (if truthy ?src then ?src else JStr ''Unknown''))"
    if "i < length xs" for i
    using map_of_with_stamps[of "now i" ?src "xs ! i"] nth[OF that]
    by (simp add: js_or_def)
  have same: "get_prop ((inventoryData s @ ?new) ! (length (inventoryData s) + i)) ''receivedAt'' = JStr t"
    if "i < length xs" and "\<forall>i<length xs. now i = t" for i
  proof -
    from each[OF that(1)] obtain kvs where
      k: "(inventoryData s @ ?new) ! (length (inventoryData s) + i) = JObj kvs"
      and m: "map_of kvs ''receivedAt'' = Some (JStr (now i))"
      by auto
    show ?thesis using k m that by simp
  qed
  have len: "length (inventoryData s @ ?new) = length (inventoryData s) + length xs"
    by simp
  have tk: "take (length (inventoryData s)) (inventoryData s @ ?new) = inventoryData s"
    by simp
  have lg: "connectionLog (snd (post_inventory now req s)) = connectionLog s"
    by (simp add: post_sync[OF assms])
  have rs: "fst (post_inventory now req s) =
        \<lparr>status = 200,
         payload = Json (JObj [(''success'', JBool True),
                               (''message'', JStr ''Bulk sync completed''),
                               (''recordsAdded'', JNum (int (length xs))),
                               (''totalRecords'', JNum (int (length (inventoryData s @ ?new))))])\<rparr>"
    by (simp add: post_sync[OF assms])
  show ?thesis
    unfolding st using len tk each same lg rs by (intro conjI allI impI) (simp_all only:)
qed

theorem sync_inventory_appends_all_witness:
  "get_prop (body (sync_request (JArr [scan_A, scan_B]))) ''action'' = JStr ''sync_inventory''
   \<and> get_prop (body (sync_request (JArr [scan_A, scan_B]))) ''data'' = JArr [scan_A, scan_B]
   \<and> length (inventoryData (snd (post_inventory fixed_clock (sync_request (JArr [scan_A, scan_B])) empty_state))) = 2
   \<and> get_prop (inventoryData (snd (post_inventory fixed_clock (sync_request (JArr [scan_A, scan_B])) empty_state)) ! 1)
        ''receivedAt'' = JStr ''2026-01-01T00:00:00.000Z''
   \<and> status (fst (post_inventory fixed_clock (sync_request (JArr [scan_A, scan_B])) empty_state)) = 200"
proof -
  have h1: "get_prop (body (sync_request (JArr [scan_A, scan_B]))) ''action'' = JStr ''sync_inventory''"
    by (simp add: sync_request_def blank_request_def)
  have h2: "get_prop (body (sync_request (JArr [scan_A, scan_B]))) ''data'' = JArr [scan_A, scan_B]"
    by (simp add: sync_request_def blank_request_def)
  have c: "\<forall>i<length [scan_A, scan_B]. fixed_clock i = ''2026-01-01T00:00:00.000Z''"
    by (simp add: fixed_clock_def)
  note t = sync_inventory_appends_all[OF h1 h2, of fixed_clock empty_state "''2026-01-01T00:00:00.000Z''"]
  from t have l: "length (inventoryData (snd (post_inventory fixed_clock (sync_request (JArr [scan_A, scan_B])) empty_state))) = 2"
    by (simp add: empty_state_def)
  from t c have r: "\<forall>i<length [scan_A, scan_B].
      get_prop (inventoryData (snd (post_inventory fixed_clock (sync_request (JArr [scan_A, scan_B])) empty_state))
                 ! (length (inventoryData empty_state) + i)) ''receivedAt'' = JStr ''2026-01-01T00:00:00.000Z''"
    by blast
  from r have r1: "get_prop (inventoryData (snd (post_inventory fixed_clock (sync_request (JArr [scan_A, scan_B])) empty_state)) ! 1)
        ''receivedAt'' = JStr ''2026-01-01T00:00:00.000Z''"
    by (simp add: empty_state_def)
  from t have s: "status (fst (post_inventory fixed_clock (sync_request (JArr [scan_A, scan_B])) empty_state)) = 200"
    by simp
  show ?thesis using h1 h2 l r1 s by simp
qed

text \<open>
  C2 as stated fails: when the clock advances between two elements of one bulk sync, the
  two records carry different \<^verbatim>\<open>receivedAt\<close> values.
\<close>

theorem sync_same_receivedAt_counterexample:
  "inventoryData (snd (post_inventory ticking_clock (sync_request (JArr [scan_A, scan_B])) empty_state)) =
     [JObj [(''productBarcode'', JStr ''123''), (''site'', JStr ''A''), (''quantity'', JNum 5),
            (''receivedAt'', JStr ''2026-01-01T00:00:00.000Z''), (''source'', JStr ''EasyInv'')],
      JObj [(''productBarcode'', JStr ''456''), (''site'', JStr ''B''), (''quantity'', JNum 2),
            (''receivedAt'', JStr ''2026-01-01T00:00:00.001Z''), (''source'', JStr ''EasyInv'')]]
   \<and> get_prop (inventoryData (snd (post_inventory ticking_clock (sync_request (JArr [scan_A, scan_B])) empty_state)) ! 0)
        ''receivedAt''
     \<noteq> get_prop (inventoryData (snd (post_inventory ticking_clock (sync_request (JArr [scan_A, scan_B])) empty_state)) ! 1)
        ''receivedAt''"
  by (simp add: post_inventory_def destructure_body_def sync_request_def blank_request_def
      scan_A_def scan_B_def empty_state_def ticking_clock_def with_stamps_def js_or_def Let_def
      enumerate_eq_zip upt_rec)

lemma post_invalid:
  assumes "body req \<noteq> JUndefined" and "body req \<noteq> JNull"
    and "\<not> (get_prop (body req) ''action'' = JStr ''add_inventory'' \<and> truthy (get_prop (body req) ''data''))"
    and "\<not> (get_prop (body req) ''action'' = JStr ''sync_inventory'' \<and> isArray (get_prop (body req) ''data''))"
  shows "post_inventory now req s =
     (\<lparr>status = 400,
       payload = Json (JObj [(''success'', JBool False), (''error'', JStr ''Invalid request format'')])\<rparr>, s)"
  using assms
  by (simp add: post_inventory_def destructure_body_def Let_def)

text \<open>
  C3, as the code has it. A POST /api/inventory request with a body, whose action is
  neither \<^verbatim>\<open>add_inventory\<close> nor \<^verbatim>\<open>sync_inventory\<close>, or whose action is
  \<^verbatim>\<open>add_inventory\<close> with \<^verbatim>\<open>data\<close> missing or otherwise falsy (\<^verbatim>\<open>null\<close>, \<^verbatim>\<open>false\<close>,
  \<^verbatim>\<open>0\<close>, the empty string), or whose action is \<^verbatim>\<open>sync_inventory\<close> with \<^verbatim>\<open>data\<close> not
  an array, is answered with status 400, a failure flag and the message
  \<^verbatim>\<open>Invalid request format\<close>, and the state is unchanged.
\<close>

theorem invalid_request_rejected:
  assumes "body req \<noteq> JUndefined" and "body req \<noteq> JNull"
    and "(get_prop (body req) ''action'' \<noteq> JStr ''add_inventory''
            \<and> get_prop (body req) ''action'' \<noteq> JStr ''sync_inventory'')
         \<or> (get_prop (body req) ''action'' = JStr ''add_inventory''
            \<and> \<not> truthy (get_prop (body req) ''data''))
         \<or> (get_prop (body req) ''action'' = JStr ''sync_inventory''
            \<and> \<not> isArray (get_prop (body req) ''data''))"
  shows "post_inventory now req s =
     (\<lparr>status = 400,
       payload = Json (JObj [(''success'', JBool False), (''error'', JStr ''Invalid request format'')])\<rparr>, s)"
proof (rule post_invalid[OF assms(1,2)])
  show "\<not> (get_prop (body req) ''action'' = JStr ''add_inventory'' \<and> truthy (get_prop (body req) ''data''))"
    using assms(3) by auto
  show "\<not> (get_prop (body req) ''action'' = JStr ''sync_inventory'' \<and> isArray (get_prop (body req) ''data''))"
    using assms(3) by auto
qed

theorem invalid_request_rejected_witness:
  "body (sync_request scan_A) \<noteq> JUndefined \<and> body (sync_request scan_A) \<noteq> JNull
   \<and> get_prop (body (sync_request scan_A)) ''action'' = JStr ''sync_inventory''
   \<and> \<not> isArray (get_prop (body (sync_request scan_A)) ''data'')
   \<and> post_inventory fixed_clock (sync_request scan_A) empty_state =
     (\<lparr>status = 400,
       payload = Json (JObj [(''success'', JBool False), (''error'', JStr ''Invalid request format'')])\<rparr>,
      empty_state)"
proof -
  have h1: "body (sync_request scan_A) \<noteq> JUndefined" and h2: "body (sync_request scan_A) \<noteq> JNull"
    by (simp_all add: sync_request_def blank_request_def)
  have a: "get_prop (body (sync_request scan_A)) ''action'' = JStr ''sync_inventory''"
    by (simp add: sync_request_def blank_request_def)
  have d: "\<not> isArray (get_prop (body (sync_request scan_A)) ''data'')"
    by (simp add: sync_request_def blank_request_def scan_A_def)
  from a d have h3: "(get_prop (body (sync_request scan_A)) ''action'' \<noteq> JStr ''add_inventory''
            \<and> get_prop (body (sync_request scan_A)) ''action'' \<noteq> JStr ''sync_inventory'')
         \<or> (get_prop (body (sync_request scan_A)) ''action'' = JStr ''add_inventory''
            \<and> \<not> truthy (get_prop (body (sync_request scan_A)) ''data''))
         \<or> (get_prop (body (sync_request scan_A)) ''action'' = JStr ''sync_inventory''
            \<and> \<not> isArray (get_prop (body (sync_request scan_A)) ''data''))"
    by blast
  show ?thesis
    using h1 h2 a d invalid_request_rejected[OF h1 h2 h3, of fixed_clock empty_state] by blast
qed

text \<open>
  C3 as stated fails: \<^verbatim>\<open>add_inventory\<close> tests only that \<^verbatim>\<open>data\<close> is truthy, so an
  array sent where a single mapping is expected is accepted with status 201 and stored
  as one record.
\<close>

theorem add_inventory_wrong_shape_counterexample:
  "post_inventory fixed_clock (add_request (JArr [scan_A, scan_B])) empty_state =
     (\<lparr>status = 201,
       payload = Json (JObj [(''success'', JBool True),
                             (''message'', JStr ''Inventory record added''),
                             (''recordId'', JNum 0), (''totalRecords'', JNum 1)])\<rparr>,
      \<lparr>inventoryData =
         [JObj [(''0'', scan_A), (''1'', scan_B),
                (''receivedAt'', JStr ''2026-01-01T00:00:00.000Z''), (''source'', JStr ''Unknown'')]],
       connectionLog = []\<rparr>)"
  by (simp add: post_inventory_def destructure_body_def add_request_def blank_request_def
      empty_state_def fixed_clock_def with_stamps_def js_or_def Let_def upt_rec
      show_nat.simps digit_char_def)

text \<open>
  C10. Whatever the payload carries under \<^verbatim>\<open>receivedAt\<close> and \<^verbatim>\<open>source\<close>, the stored
  record has the server's clock reading as \<^verbatim>\<open>receivedAt\<close> and the request's source (or
  \<^verbatim>\<open>Unknown\<close>) as \<^verbatim>\<open>source\<close>, for \<^verbatim>\<open>add_inventory\<close> and for each element of
  \<^verbatim>\<open>sync_inventory\<close>; every other property of the payload is stored as it came.
\<close>

theorem server_stamps_override_payload:
  "(get_prop (body req) ''action'' = JStr ''add_inventory'' \<and> truthy (get_prop (body req) ''data'') \<longrightarrow>
      (\<exists>kvs. inventoryData (snd (post_inventory now req s)) ! length (inventoryData s) = JObj kvs
         \<and> map_of kvs ''receivedAt'' = Some (JStr (now 0))
         \<and> map_of kvs ''source'' = Some (if truthy (get_prop (body req) ''source'')
                                           then get_prop (body req) ''source'' else JStr ''Unknown'')
         \<and> (\<forall>k. k \<noteq> ''receivedAt'' \<and> k \<noteq> ''source'' \<longrightarrow>
                map_of kvs k = map_of (spread (get_prop (body req) ''data'')) k)))
   \<and> (get_prop (body req) ''action'' = JStr ''sync_inventory'' \<and> get_prop (body req) ''data'' = JArr xs
        \<and> i < length xs \<longrightarrow>
      (\<exists>kvs. inventoryData (snd (post_inventory now req s)) ! (length (inventoryData s) + i) = JObj kvs
         \<and> map_of kvs ''receivedAt'' = Some (JStr (now i))
         \<and> map_of kvs ''source'' = Some (if truthy (get_prop (body req) ''source'')
                                           then get_prop (body req) ''source'' else JStr ''Unknown'')
         \<and> (\<forall>k. k \<noteq> ''receivedAt'' \<and> k \<noteq> ''source'' \<longrightarrow>
                map_of kvs k = map_of (spread (xs ! i)) k)))"
proof (intro conjI impI)
  assume a: "get_prop (body req) ''action'' = JStr ''add_inventory'' \<and> truthy (get_prop (body req) ''data'')"
  obtain kvs where
    k: "with_stamps (now 0) (get_prop (body req) ''source'') (get_prop (body req) ''data'') = JObj kvs"
    and m: "map_of kvs = (map_of (spread (get_prop (body req) ''data'')))
              (''receivedAt'' \<mapsto> JStr (now 0),
               ''source'' \<mapsto> js_or (get_prop (body req) ''source'') (JStr ''Unknown''))"
    using map_of_with_stamps by blast
  have "inventoryData (snd (post_inventory now req s)) ! length (inventoryData s) = JObj kvs"
    using a by (simp add: post_add k)
  then show "\<exists>kvs. inventoryData (snd (post_inventory now req s)) ! length (inventoryData s) = JObj kvs
         \<and> map_of kvs ''receivedAt'' = Some (JStr (now 0))
         \<and> map_of kvs ''source'' = Some (if truthy (get_prop (body req) ''source'')
                                           then get_prop (body req) ''source'' else JStr ''Unknown'')
         \<and> (\<forall>k. k \<noteq> ''receivedAt'' \<and> k \<noteq> ''source'' \<longrightarrow>
                map_of kvs k = map_of (spread (get_prop (body req) ''data'')) k)"
    using m by (intro exI[of _ kvs]) (simp add: js_or_def)
next
  assume a: "get_prop (body req) ''action'' = JStr ''sync_inventory'' \<and> get_prop (body req) ''data'' = JArr xs
        \<and> i < length xs"
  obtain kvs where
    k: "with_stamps (now i) (get_prop (body req) ''source'') (xs ! i) = JObj kvs"
    and m: "map_of kvs = (map_of (spread (xs ! i)))
              (''receivedAt'' \<mapsto> JStr (now i),
               ''source'' \<mapsto> js_or (get_prop (body req) ''source'') (JStr ''Unknown''))"
    using map_of_with_stamps by blast
  have "inventoryData (snd (post_inventory now req s)) ! (length (inventoryData s) + i) = JObj kvs"
    using a sync_record_nth[of i xs "inventoryData s" now "get_prop (body req) ''source''"]
    by (simp add: post_sync k)
  then show "\<exists>kvs. inventoryData (snd (post_inventory now req s)) ! (length (inventoryData s) + i) = JObj kvs
         \<and> map_of kvs ''receivedAt'' = Some (JStr (now i))
         \<and> map_of kvs ''source'' = Some (if truthy (get_prop (body req) ''source'')
                                           then get_prop (body req) ''source'' else JStr ''Unknown'')
         \<and> (\<forall>k. k \<noteq> ''receivedAt'' \<and> k \<noteq> ''source'' \<longrightarrow>
                map_of kvs k = map_of (spread (xs ! i)) k)"
    using m by (intro exI[of _ kvs]) (simp add: js_or_def)
qed

theorem server_stamps_override_payload_witness:
  "get_prop (body (add_request scan_stamped)) ''action'' = JStr ''add_inventory''
   \<and> truthy (get_prop (body (add_request scan_stamped)) ''data'')
   \<and> get_prop (body (sync_request (JArr [scan_A, scan_stamped]))) ''action'' = JStr ''sync_inventory''
   \<and> get_prop (body (sync_request (JArr [scan_A, scan_stamped]))) ''data'' = JArr [scan_A, scan_stamped]
   \<and> (1::nat) < length [scan_A, scan_stamped]
   \<and> get_prop scan_stamped ''receivedAt'' = JStr ''1999-12-31''
   \<and> get_prop scan_stamped ''source'' = JStr ''client''
   \<and> (\<exists>kvs. inventoryData (snd (post_inventory fixed_clock (add_request scan_stamped) empty_state)) ! 0 = JObj kvs
         \<and> map_of kvs ''receivedAt'' = Some (JStr ''2026-01-01T00:00:00.000Z'')
         \<and> map_of kvs ''source'' = Some (JStr ''Unknown'')
         \<and> map_of kvs ''productBarcode'' = Some (JStr ''789''))
   \<and> (\<exists>kvs. inventoryData (snd (post_inventory ticking_clock (sync_request (JArr [scan_A, scan_stamped])) empty_state)) ! 1 = JObj kvs
         \<and> map_of kvs ''receivedAt'' = Some (JStr ''2026-01-01T00:00:00.001Z'')
         \<and> map_of kvs ''source'' = Some (JStr ''EasyInv'')
         \<and> map_of kvs ''productBarcode'' = Some (JStr ''789''))"
proof -
  have h1: "get_prop (body (add_request scan_stamped)) ''action'' = JStr ''add_inventory''
            \<and> truthy (get_prop (body (add_request scan_stamped)) ''data'')"
    by (simp add: add_request_def blank_request_def scan_stamped_def)
  have h2: "get_prop (body (sync_request (JArr [scan_A, scan_stamped]))) ''action'' = JStr ''sync_inventory''
            \<and> get_prop (body (sync_request (JArr [scan_A, scan_stamped]))) ''data'' = JArr [scan_A, scan_stamped]
            \<and> (1::nat) < length [scan_A, scan_stamped]"
    by (simp add: sync_request_def blank_request_def)
  have p: "get_prop scan_stamped ''receivedAt'' = JStr ''1999-12-31''
           \<and> get_prop scan_stamped ''source'' = JStr ''client''"
    by (simp add: scan_stamped_def)
  have sa: "get_prop (body (add_request scan_stamped)) ''source'' = JUndefined"
    and da: "get_prop (body (add_request scan_stamped)) ''data'' = scan_stamped"
    by (simp_all add: add_request_def blank_request_def)
  have ss: "get_prop (body (sync_request (JArr [scan_A, scan_stamped]))) ''source'' = JStr ''EasyInv''"
    by (simp add: sync_request_def blank_request_def)
  have bc: "map_of (spread scan_stamped) ''productBarcode'' = Some (JStr ''789'')"
    by (simp add: scan_stamped_def)
  from server_stamps_override_payload[where req = "add_request scan_stamped" and now = fixed_clock
      and s = empty_state] h1
  obtain kvs where
    1: "inventoryData (snd (post_inventory fixed_clock (add_request scan_stamped) empty_state)) ! length (inventoryData empty_state) = JObj kvs"
    and 2: "map_of kvs ''receivedAt'' = Some (JStr (fixed_clock 0))"
    and 3: "map_of kvs ''source'' = Some (if truthy (get_prop (body (add_request scan_stamped)) ''source'')
                                         then get_prop (body (add_request scan_stamped)) ''source'' else JStr ''Unknown'')"
    and 4: "\<forall>k. k \<noteq> ''receivedAt'' \<and> k \<noteq> ''source'' \<longrightarrow>
              map_of kvs k = map_of (spread (get_prop (body (add_request scan_stamped)) ''data'')) k"
    by blast
  from 4 bc have 5: "map_of kvs ''productBarcode'' = Some (JStr ''789'')"
    by (simp add: da)
  have c1: "\<exists>kvs. inventoryData (snd (post_inventory fixed_clock (add_request scan_stamped) empty_state)) ! 0 = JObj kvs
         \<and> map_of kvs ''receivedAt'' = Some (JStr ''2026-01-01T00:00:00.000Z'')
         \<and> map_of kvs ''source'' = Some (JStr ''Unknown'')
         \<and> map_of kvs ''productBarcode'' = Some (JStr ''789'')"
    using 1 2 3 5 by (intro exI[of _ kvs]) (simp add: sa empty_state_def fixed_clock_def)
  from server_stamps_override_payload[where req = "sync_request (JArr [scan_A, scan_stamped])"
      and now = ticking_clock and s = empty_state and xs = "[scan_A, scan_stamped]" and i = 1] h2
  obtain kvs' where
    6: "inventoryData (snd (post_inventory ticking_clock (sync_request (JArr [scan_A, scan_stamped])) empty_state)) ! (length (inventoryData empty_state) + 1) = JObj kvs'"
    and 7: "map_of kvs' ''receivedAt'' = Some (JStr (ticking_clock 1))"
    and 8: "map_of kvs' ''source'' = Some (if truthy (get_prop (body (sync_request (JArr [scan_A, scan_stamped]))) ''source'')
                                         then get_prop (body (sync_request (JArr [scan_A, scan_stamped]))) ''source'' else JStr ''Unknown'')"
    and 9: "\<forall>k. k \<noteq> ''receivedAt'' \<and> k \<noteq> ''source'' \<longrightarrow>
              map_of kvs' k = map_of (spread ([scan_A, scan_stamped] ! 1)) k"
    by blast
  from 9 bc have 10: "map_of kvs' ''productBarcode'' = Some (JStr ''789'')"
    by simp
  have c2: "\<exists>kvs. inventoryData (snd (post_inventory ticking_clock (sync_request (JArr [scan_A, scan_stamped])) empty_state)) ! 1 = JObj kvs
         \<and> map_of kvs ''receivedAt'' = Some (JStr ''2026-01-01T00:00:00.001Z'')
         \<and> map_of kvs ''source'' = Some (JStr ''EasyInv'')
         \<and> map_of kvs ''productBarcode'' = Some (JStr ''789'')"
    using 6 7 8 10 by (intro exI[of _ kvs']) (simp add: ss empty_state_def ticking_clock_def)
  show ?thesis using h1 h2 p c1 c2 by blast
qed

section \<open>Query\<close>

lemma filter_by_matches:
  "filter_by f q xs = filter (\<lambda>r. field_matches q (get_prop r f)) xs"
  by (cases q) (auto simp: field_matches_def intro: filter_cong)

lemma filtered_records_selected:
  "filtered_records req s = filter (spec_selected req) (inventoryData s)"
  unfolding filtered_records_def filter_by_matches spec_selected_def
  by (simp add: conj_commute conj_left_commute cong: filter_cong)

lemma suffix_slice_from: "suffix (slice_from st xs) xs"
  by (simp add: slice_from_def Let_def suffix_drop)

lemma suffix_apply_limit: "suffix (apply_limit l xs) xs"
  by (cases l) (simp_all add: suffix_slice_from)

lemma slice_from_neg:
  "1 \<le> n \<Longrightarrow> slice_from (Some (- n)) xs = drop (length xs - nat n) xs"
  by (auto simp: slice_from_def Let_def max_def nat_diff_distrib')

lemma parseInt_Nil: "parseInt [] = None"
  by (simp add: parseInt_def)

text \<open>
  C4, as the code has it. For every GET /api/inventory request the response reports as
  \<^verbatim>\<open>totalRecords\<close> the length of the whole store, whatever the filters, and its
  \<^verbatim>\<open>data\<close> is a trailing part, in insertion order, of the store records that match
  every filter parameter that is present and non-empty (exact, case-sensitive equality
  with the string); when \<^verbatim>\<open>limit\<close> is absent or empty the data is exactly those
  records.
\<close>

theorem query_returns_matching_records:
  "get_inventory req s =
     \<lparr>status = 200,
      payload = Json (JObj
        [(''success'', JBool True),
         (''totalRecords'', JNum (int (length (inventoryData s)))),
         (''filteredRecords'',
            JNum (int (length (apply_limit (query req ''limit'')
                                 (filter (spec_selected req) (inventoryData s)))))),
         (''data'', JArr (apply_limit (query req ''limit'')
                            (filter (spec_selected req) (inventoryData s))))])\<rparr>
   \<and> suffix (apply_limit (query req ''limit'') (filter (spec_selected req) (inventoryData s)))
            (filter (spec_selected req) (inventoryData s))
   \<and> (query req ''limit'' = None \<or> query req ''limit'' = Some [] \<longrightarrow>
        apply_limit (query req ''limit'') (filter (spec_selected req) (inventoryData s))
          = filter (spec_selected req) (inventoryData s))"
  by (auto simp: get_inventory_def filtered_records_selected Let_def suffix_apply_limit)

theorem query_returns_matching_records_witness:
  "query (query_request [(''site'', ''B'')]) ''limit'' = None
   \<and> get_inventory (query_request [(''site'', ''B'')]) two_scans =
     \<lparr>status = 200,
      payload = Json (JObj [(''success'', JBool True), (''totalRecords'', JNum 2),
                            (''filteredRecords'', JNum 1), (''data'', JArr [scan_B])])\<rparr>"
proof -
  have h: "query (query_request [(''site'', ''B'')]) ''limit'' = None"
    by (simp add: query_request_def blank_request_def)
  have f: "filter (spec_selected (query_request [(''site'', ''B'')])) (inventoryData two_scans) = [scan_B]"
    by (simp add: spec_selected_def field_matches_def query_request_def blank_request_def
        two_scans_def scan_A_def scan_B_def)
  from query_returns_matching_records[of "query_request [(''site'', ''B'')]" two_scans] h
  show ?thesis by (simp add: f) (simp add: two_scans_def)
qed

text \<open>
  C4 as stated fails for a request with a limit: with two stored records, no filter and
  \<^verbatim>\<open>limit=1\<close>, both records match but only the later one is returned.
\<close>

theorem query_limit_truncates_counterexample:
  "get_inventory (query_request [(''limit'', ''1'')]) two_scans =
     \<lparr>status = 200,
      payload = Json (JObj [(''success'', JBool True), (''totalRecords'', JNum 2),
                            (''filteredRecords'', JNum 1), (''data'', JArr [scan_B])])\<rparr>
   \<and> filter (spec_selected (query_request [(''limit'', ''1'')])) (inventoryData two_scans)
       = [scan_A, scan_B]"
proof -
  have p: "parseInt ''1'' = Some 1" by code_simp
  show ?thesis
    by (simp add: get_inventory_def filtered_records_def query_request_def blank_request_def
      two_scans_def spec_selected_def field_matches_def p slice_from_def Let_def)
qed

subsection \<open>Decimal numerals are read back by parseInt\<close>

lemma digit_cases: "d < 10 \<Longrightarrow> d \<in> {0, 1, 2, 3, 4, 5, 6, 7, 8, 9::nat}"
  by auto

lemma digit_val_digit_char: "d < 10 \<Longrightarrow> digit_val (digit_char d) = Some d"
  by (drule digit_cases) (auto simp: digit_char_def digit_val_def)

lemma digit_char_plain:
  "d < 10 \<Longrightarrow> \<not> is_space (digit_char d) \<and> digit_char d \<noteq> CHR ''-'' \<and> digit_char d \<noteq> CHR ''+''
     \<and> digit_char d \<noteq> CHR ''x'' \<and> digit_char d \<noteq> CHR ''X''"
  by (drule digit_cases) (auto simp: digit_char_def is_space_def)

lemma show_nat_digits: "c \<in> set (show_nat n) \<Longrightarrow> \<exists>d<10. c = digit_char d"
proof (induction n rule: show_nat.induct)
  case (1 n)
  show ?case
  proof (cases "n < 10")
    case True
    with "1.prems" show ?thesis by (auto simp: show_nat.simps[of n])
  next
    case False
    with "1.prems" have "c \<in> set (show_nat (n div 10)) \<or> c = digit_char (n mod 10)"
      by (auto simp: show_nat.simps[of n])
    then show ?thesis
    proof
      assume "c \<in> set (show_nat (n div 10))"
      with False "1.IH" show ?thesis by simp
    next
      assume "c = digit_char (n mod 10)"
      moreover have "n mod 10 < 10" by simp
      ultimately show ?thesis by blast
    qed
  qed
qed

lemma show_nat_nonempty: "show_nat n \<noteq> []"
  by (subst show_nat.simps) simp

lemma digits_value_snoc:
  "digits_value R (ds @ [c]) = digits_value R ds * R + (case digit_val c of Some d \<Rightarrow> d | None \<Rightarrow> 0)"
  by (simp add: digits_value_def)

lemma digits_value_show_nat: "digits_value 10 (show_nat n) = n"
proof (induction n rule: show_nat.induct)
  case (1 n)
  show ?case
  proof (cases "n < 10")
    case True
    then show ?thesis
      by (simp add: show_nat.simps[of n] digits_value_def digit_val_digit_char)
  next
    case False
    with "1.IH" have "digits_value 10 (show_nat (n div 10)) = n div 10" by simp
    with False show ?thesis
      by (simp add: show_nat.simps[of n] digits_value_snoc digit_val_digit_char)
  qed
qed

text \<open>\<^verbatim>\<open>parseInt\<close> reads a decimal numeral as the number it writes.\<close>

lemma parseInt_show_nat: "parseInt (show_nat n) = Some (int n)"
proof -
  obtain c cs where s: "show_nat n = c # cs"
    using show_nat_nonempty[of n] by (cases "show_nat n") auto
  have dig: "\<exists>d<10. x = digit_char d" if "x \<in> set (c # cs)" for x
    using that show_nat_digits[of x n] by (simp add: s)
  have c: "\<not> is_space c" "c \<noteq> CHR ''-''" "c \<noteq> CHR ''+''"
    using dig[of c] digit_char_plain by auto
  have nox: "\<not> prefix ''0x'' (c # cs)" "\<not> prefix ''0X'' (c # cs)"
  proof -
    have "hd cs \<noteq> CHR ''x'' \<and> hd cs \<noteq> CHR ''X''" if "cs \<noteq> []"
    proof -
      from that obtain d where "d < 10" and "hd cs = digit_char d"
        using dig[of "hd cs"] by auto
      then show ?thesis using digit_char_plain[of d] by simp
    qed
    then show "\<not> prefix ''0x'' (c # cs)" "\<not> prefix ''0X'' (c # cs)"
      by (auto simp: prefix_def)
  qed
  have all: "takeWhile (is_digit_in 10) (c # cs) = c # cs"
  proof -
    have "is_digit_in 10 x" if "x \<in> set (c # cs)" for x
      using dig[OF that] by (auto simp: is_digit_in_def digit_val_digit_char)
    then show ?thesis by (simp add: takeWhile_eq_all_conv del: takeWhile.simps)
  qed
  have dw: "dropWhile is_space (c # cs) = c # cs"
    using c(1) by simp
  have sg: "(case c # cs of
               [] \<Rightarrow> (1, c # cs)
             | c' # r \<Rightarrow> if c' = CHR ''-'' then (- 1, r)
                         else if c' = CHR ''+'' then (1, r) else (1, c # cs)) = (1::int, c # cs)"
    using c(2,3) by simp
  have rx: "(if prefix ''0x'' (c # cs) \<or> prefix ''0X'' (c # cs) then (16, drop 2 (c # cs))
             else (10, c # cs)) = (10::nat, c # cs)"
    by (simp only: nox simp_thms if_False)
  have v: "digits_value 10 (c # cs) = n"
    using digits_value_show_nat[of n] by (simp only: s)
  show ?thesis
    by (simp only: parseInt_def Let_def s dw sg rx prod.case all v list.distinct if_False
        mult_1 of_nat_id)
qed

subsection \<open>The limit\<close>

text \<open>
  C5, as the code has it. For every GET /api/inventory request whose \<^verbatim>\<open>limit\<close>
  parameter has a numeric value N of at least 1 (\<^verbatim>\<open>parseInt\<close> reads N from it, as
  it does from every decimal numeral of N), the data is the last
  \<open>min N (length filtered)\<close> records of the filtered result in their original order,
  so at most N records.
\<close>

theorem limit_returns_latest:
  assumes "query req ''limit'' = Some l" and "parseInt l = Some n" and "1 \<le> n"
  shows "get_inventory req s =
     \<lparr>status = 200,
      payload = Json (JObj
        [(''success'', JBool True),
         (''totalRecords'', JNum (int (length (inventoryData s)))),
         (''filteredRecords'', JNum (int (min (nat n) (length (filtered_records req s))))),
         (''data'', JArr (drop (length (filtered_records req s) - nat n) (filtered_records req s)))])\<rparr>
   \<and> length (drop (length (filtered_records req s) - nat n) (filtered_records req s)) \<le> nat n
   \<and> suffix (drop (length (filtered_records req s) - nat n) (filtered_records req s))
            (filtered_records req s)"
proof -
  have "l \<noteq> []" using assms(2) parseInt_Nil by auto
  then have "apply_limit (query req ''limit'') (filtered_records req s)
             = drop (length (filtered_records req s) - nat n) (filtered_records req s)"
    using assms by (simp add: slice_from_neg)
  then show ?thesis
    by (auto simp: get_inventory_def Let_def suffix_drop)
qed

theorem limit_returns_latest_witness:
  "query (query_request [(''limit'', ''1'')]) ''limit'' = Some ''1''
   \<and> parseInt ''1'' = Some 1 \<and> (1::int) \<le> 1
   \<and> get_inventory (query_request [(''limit'', ''1'')]) two_scans =
     \<lparr>status = 200,
      payload = Json (JObj [(''success'', JBool True), (''totalRecords'', JNum 2),
                            (''filteredRecords'', JNum 1), (''data'', JArr [scan_B])])\<rparr>"
proof -
  have h1: "query (query_request [(''limit'', ''1'')]) ''limit'' = Some ''1''"
    by (simp add: query_request_def blank_request_def)
  have h2: "parseInt ''1'' = Some 1" by code_simp
  have h3: "(1::int) \<le> 1" by simp
  have f: "filtered_records (query_request [(''limit'', ''1'')]) two_scans = [scan_A, scan_B]"
    by (simp add: filtered_records_def query_request_def blank_request_def two_scans_def)
  from limit_returns_latest[OF h1 h2 h3, of two_scans]
  show ?thesis using h1 h2 by (simp add: f) (simp add: two_scans_def)
qed

text \<open>
  C5 as stated fails at N = 0: \<^verbatim>\<open>slice(-0)\<close> is \<^verbatim>\<open>slice(0)\<close>, the whole array, so
  \<^verbatim>\<open>limit=0\<close> returns every record instead of at most none.
\<close>

theorem limit_zero_counterexample:
  "query (query_request [(''limit'', ''0'')]) ''limit'' = Some ''0''
   \<and> parseInt ''0'' = Some 0
   \<and> get_inventory (query_request [(''limit'', ''0'')]) two_scans =
     \<lparr>status = 200,
      payload = Json (JObj [(''success'', JBool True), (''totalRecords'', JNum 2),
                            (''filteredRecords'', JNum 2), (''data'', JArr [scan_A, scan_B])])\<rparr>"
proof -
  have p: "parseInt ''0'' = Some 0" by code_simp
  show ?thesis
    by (simp add: get_inventory_def filtered_records_def query_request_def blank_request_def
      two_scans_def p slice_from_def Let_def)
qed

section \<open>Statistics\<close>









lemma three_scans_store:
  "inventoryData three_scans =
     [JObj [(''productBarcode'', JStr ''123''), (''site'', JStr ''A''), (''quantity'', JNum 5),
            (''receivedAt'', JStr ''2026-01-01T00:00:00.000Z''), (''source'', JStr ''EasyInv'')],
      JObj [(''productBarcode'', JStr ''456''), (''site'', JStr ''B''), (''quantity'', JNum 2),
            (''receivedAt'', JStr ''2026-01-01T00:00:00.000Z''), (''source'', JStr ''EasyInv'')],
      JObj [(''productBarcode'', JStr ''123''), (''site'', JStr ''A''), (''quantity'', JNum 5),
            (''receivedAt'', JStr ''2026-01-01T00:00:00.000Z''), (''source'', JStr ''EasyInv'')]]"
  by (simp add: three_scans_def post_inventory_def destructure_body_def sync_request_def
      blank_request_def scan_A_def scan_B_def empty_state_def fixed_clock_def with_stamps_def
      js_or_def Let_def enumerate_eq_zip upt_rec)




section \<open>Clearing the store\<close>

lemma filter_by_Nil: "filter_by f q [] = []"
  by (cases q) simp_all

lemma apply_limit_Nil: "apply_limit l [] = []"
  by (cases l) (simp_all add: slice_from_def)

lemma query_empty_store:
  "inventoryData s = [] \<Longrightarrow> json_field (get_inventory q s) ''data'' = JArr []"
  by (simp add: json_field_def get_inventory_def filtered_records_def filter_by_Nil apply_limit_Nil)

lemma gated_passes: "gated req s k = k"
  by (simp add: gated_def validateApiKey_def)

text \<open>
  C7. A DELETE /api/inventory request empties the store, so that any query afterwards
  returns no record; the response reports the number of records held before the call
  and a total of 0; the handler leaves the log alone, so the log is the old log followed
  by the one entry of the request logger.
\<close>

theorem delete_clears_store:
  assumes "req_method req = ''DELETE''" and "req_path req = ''/api/inventory''"
  shows "\<exists>s'. serve clk req s =
            Some (\<lparr>status = 200,
                   payload = Json (JObj [(''success'', JBool True),
                                         (''message'', JStr (show_nat (length (inventoryData s)) @ '' records deleted'')),
                                         (''totalRecords'', JNum 0)])\<rparr>, s')
          \<and> inventoryData s' = []
          \<and> (\<forall>q. json_field (get_inventory q s') ''data'' = JArr [])
          \<and> connectionLog s' = connectionLog s @
               [\<lparr>log_timestamp = clk 0, log_method = ''DELETE'', log_path = ''/api/inventory'',
                 log_ip = req_ip req, log_userAgent = user_agent req\<rparr>]
          \<and> connectionLog (snd (delete_inventory req s)) = connectionLog s"
proof -
  let ?s' = "snd (delete_inventory req (logger (clk 0) req s))"
  have e: "inventoryData ?s' = []"
    by (simp add: delete_inventory_def Let_def)
  have sv: "serve clk req s = Some (delete_inventory req (logger (clk 0) req s))"
    using assms by (simp add: serve_def gated_passes Let_def)
  have r: "fst (delete_inventory req (logger (clk 0) req s)) =
            \<lparr>status = 200,
             payload = Json (JObj [(''success'', JBool True),
                                   (''message'', JStr (show_nat (length (inventoryData s)) @ '' records deleted'')),
                                   (''totalRecords'', JNum 0)])\<rparr>"
    by (simp add: delete_inventory_def logger_def Let_def)
  have l: "connectionLog ?s' = connectionLog s @
               [\<lparr>log_timestamp = clk 0, log_method = ''DELETE'', log_path = ''/api/inventory'',
                 log_ip = req_ip req, log_userAgent = user_agent req\<rparr>]"
    using assms by (simp add: delete_inventory_def logger_def Let_def)
  have h: "connectionLog (snd (delete_inventory req s)) = connectionLog s"
    by (simp add: delete_inventory_def Let_def)
  have q: "\<forall>q. json_field (get_inventory q ?s') ''data'' = JArr []"
    using e by (simp add: query_empty_store)
  show ?thesis
    apply (rule exI[of _ ?s'])
    using sv r e q l h by (simp add: prod_eq_iff)
qed

theorem delete_clears_store_witness:
  "req_method delete_request = ''DELETE'' \<and> req_path delete_request = ''/api/inventory''
   \<and> serve fixed_clock delete_request three_scans =
        Some (\<lparr>status = 200,
               payload = Json (JObj [(''success'', JBool True),
                                     (''message'', JStr ''3 records deleted''),
                                     (''totalRecords'', JNum 0)])\<rparr>,
              \<lparr>inventoryData = [],
               connectionLog = [\<lparr>log_timestamp = ''2026-01-01T00:00:00.000Z'', log_method = ''DELETE'',
                                 log_path = ''/api/inventory'', log_ip = ''127.0.0.1'',
                                 log_userAgent = None\<rparr>]\<rparr>)"
proof -
  have h1: "req_method delete_request = ''DELETE''" and h2: "req_path delete_request = ''/api/inventory''"
    by (simp_all add: delete_request_def blank_request_def)
  have n: "show_nat (length (inventoryData three_scans)) = ''3''"
    by (simp add: three_scans_store show_nat.simps digit_char_def)
  have c: "connectionLog three_scans = []"
    by (simp add: three_scans_def post_inventory_def destructure_body_def sync_request_def
        blank_request_def empty_state_def Let_def)
  from delete_clears_store[OF h1 h2, of fixed_clock three_scans]
  obtain s' where
    1: "serve fixed_clock delete_request three_scans =
            Some (\<lparr>status = 200,
                   payload = Json (JObj [(''success'', JBool True),
                                         (''message'', JStr (show_nat (length (inventoryData three_scans)) @ '' records deleted'')),
                                         (''totalRecords'', JNum 0)])\<rparr>, s')"
    and 2: "inventoryData s' = []"
    and 3: "connectionLog s' = connectionLog three_scans @
               [\<lparr>log_timestamp = fixed_clock 0, log_method = ''DELETE'', log_path = ''/api/inventory'',
                 log_ip = req_ip delete_request, log_userAgent = user_agent delete_request\<rparr>]"
    by blast
  have "s' = \<lparr>inventoryData = [],
               connectionLog = [\<lparr>log_timestamp = ''2026-01-01T00:00:00.000Z'', log_method = ''DELETE'',
                                 log_path = ''/api/inventory'', log_ip = ''127.0.0.1'',
                                 log_userAgent = None\<rparr>]\<rparr>"
    using 2 3 c by (cases s') (simp add: fixed_clock_def delete_request_def blank_request_def)
  with 1 n h1 h2 show ?thesis by simp
qed

section \<open>The API-key gate\<close>

text \<open>
  C9. The gate lets every request through, and the outcome of a request (response and
  new state, on every modelled route) does not depend on the \<^verbatim>\<open>Authorization\<close> and
  \<^verbatim>\<open>x-api-key\<close> headers: two requests that differ only there are served alike.
\<close>

theorem gate_ignores_credentials:
  "validateApiKey req = Next
   \<and> serve clk (req\<lparr>authorization := a, x_api_key := k\<rparr>) s
       = serve clk (req\<lparr>authorization := a', x_api_key := k'\<rparr>) s"
  by (simp add: validateApiKey_def serve_def gated_passes logger_def post_inventory_def
      get_inventory_def filtered_records_def delete_inventory_def Let_def)

section \<open>CSV export\<close>








end
